theory Spec2Isabelle
  imports Main "HOL-Library.Multiset"
begin

section \<open>JavaScript values and strings\<close>

text \<open>
  A JavaScript string is modelled as a \<^typ>\<open>string\<close>, read as its sequence of code
  units restricted to the range 0..255.  Values of type \<open>any\<close> (what \<open>JSON.parse\<close>
  returns, what the extracted-variable bag holds) are values of \<open>js_value\<close>; numbers
  are the integer-valued ones, printed in decimal by \<open>String\<close>.
\<close>

datatype js_value =
    JUndefined
  | JNull
  | JBool bool
  | JNumber int
  | JString string
  | JArray "js_value list"
  | JObject "(string \<times> js_value) list"

text \<open>White space as \<open>String.prototype.trim\<close> and the regular expression class
  \<open>\s\<close> see it: TAB, LF, VT, FF, CR, SPACE and NBSP.\<close>

definition isWhiteSpace :: "char \<Rightarrow> bool" where
  "isWhiteSpace c \<longleftrightarrow> c \<in> set [CHR 0x09, CHR 0x0A, CHR 0x0B, CHR 0x0C, CHR 0x0D, CHR 0x20, CHR 0xA0]"

definition trim :: "string \<Rightarrow> string" where
  "trim s = rev (dropWhile isWhiteSpace (rev (dropWhile isWhiteSpace s)))"


definition isDigit :: "char \<Rightarrow> bool" where
  "isDigit c \<longleftrightarrow> c \<in> set ''0123456789''"

text \<open>The class \<open>\w\<close>.\<close>

definition isWordChar :: "char \<Rightarrow> bool" where
  "isWordChar c \<longleftrightarrow>
     c \<in> set ''abcdefghijklmnopqrstuvwxyzABCDEFGHIJKLMNOPQRSTUVWXYZ0123456789_''"

definition digitChar :: "nat \<Rightarrow> char" where
  "digitChar d = (''0123456789abcdefghijklmnopqrstuvwxyz'') ! d"

text \<open>\<open>Number.prototype.toString(radix)\<close> on a natural number, for a radix from 2 to 36.\<close>

fun showNat :: "nat \<Rightarrow> nat \<Rightarrow> string" where
  "showNat radix n =
     (if radix < 2 \<or> n < radix then [digitChar n]
      else showNat radix (n div radix) @ [digitChar (n mod radix)])"

definition showInt :: "int \<Rightarrow> string" where
  "showInt i = (if i < 0 then CHR ''-'' # showNat 10 (nat (- i)) else showNat 10 (nat i))"

text \<open>\<open>Array.prototype.join\<close> with a separator.\<close>

fun joinWith :: "string \<Rightarrow> string list \<Rightarrow> string" where
  "joinWith sep [] = []"
| "joinWith sep [x] = x"
| "joinWith sep (x # y # ys) = x @ sep @ joinWith sep (y # ys)"

text \<open>
  \<open>String(value)\<close>, which is also what a template literal does to an interpolated
  value: an array prints its elements separated by commas, \<open>null\<close> and \<open>undefined\<close>
  elements as nothing.
\<close>

fun String_of :: "js_value \<Rightarrow> string" where
  "String_of JUndefined = ''undefined''"
| "String_of JNull = ''null''"
| "String_of (JBool b) = (if b then ''true'' else ''false'')"
| "String_of (JNumber i) = showInt i"
| "String_of (JString s) = s"
| "String_of (JArray xs) =
     joinWith '','' (map (\<lambda>x. if x = JUndefined \<or> x = JNull then [] else String_of x) xs)"
| "String_of (JObject kvs) = ''[object Object]''"

text \<open>The values that count as false in a condition or under \<open>||\<close>.\<close>

fun truthy :: "js_value \<Rightarrow> bool" where
  "truthy JUndefined = False"
| "truthy JNull = False"
| "truthy (JBool b) = b"
| "truthy (JNumber i) = (i \<noteq> 0)"
| "truthy (JString s) = (s \<noteq> [])"
| "truthy (JArray xs) = True"
| "truthy (JObject kvs) = True"

text \<open>
  Objects built by the program (the variable bags) are lists of entries in insertion
  order with no key twice: reading a property, assigning one, and the spread
  \<open>{...a, ...b}\<close>.
\<close>

fun getProperty :: "(string \<times> js_value) list \<Rightarrow> string \<Rightarrow> js_value" where
  "getProperty [] key = JUndefined"
| "getProperty ((k, v) # kvs) key = (if k = key then v else getProperty kvs key)"

fun setProperty :: "(string \<times> js_value) list \<Rightarrow> string \<Rightarrow> js_value \<Rightarrow> (string \<times> js_value) list" where
  "setProperty [] key value = [(key, value)]"
| "setProperty ((k, v) # kvs) key value =
     (if k = key then (k, value) # kvs else (k, v) # setProperty kvs key value)"

definition spread :: "(string \<times> js_value) list \<Rightarrow> (string \<times> js_value) list \<Rightarrow> (string \<times> js_value) list" where
  "spread a b = foldl (\<lambda>obj (k, v). setProperty obj k v) a b"


text \<open>\<open>indexOf\<close>, \<open>lastIndexOf\<close>, \<open>includes\<close>, \<open>substring\<close>, \<open>split\<close> and \<open>toLowerCase\<close>;
  \<open>None\<close> is the result \<open>-1\<close>.\<close>

definition startsWith :: "string \<Rightarrow> string \<Rightarrow> bool" where
  "startsWith s pat \<longleftrightarrow> take (length pat) s = pat"

fun findFrom :: "string \<Rightarrow> nat \<Rightarrow> string \<Rightarrow> nat option" where
  "findFrom pat i [] = (if pat = [] then Some i else None)"
| "findFrom pat i (x # xs) =
     (if startsWith (x # xs) pat then Some i else findFrom pat (Suc i) xs)"

definition indexOf :: "string \<Rightarrow> string \<Rightarrow> nat \<Rightarrow> nat option" where
  "indexOf s pat start = findFrom pat (min start (length s)) (drop start s)"

definition includesText :: "string \<Rightarrow> string \<Rightarrow> bool" where
  "includesText s pat \<longleftrightarrow> indexOf s pat 0 \<noteq> None"

fun findLast :: "string \<Rightarrow> nat \<Rightarrow> string \<Rightarrow> nat option" where
  "findLast pat i [] = (if pat = [] then Some i else None)"
| "findLast pat i (x # xs) =
     (case findLast pat (Suc i) xs of
        Some j \<Rightarrow> Some j
      | None \<Rightarrow> if startsWith (x # xs) pat then Some i else None)"

definition lastIndexOf :: "string \<Rightarrow> string \<Rightarrow> nat option" where
  "lastIndexOf s pat = findLast pat 0 s"

definition substring :: "string \<Rightarrow> nat \<Rightarrow> nat \<Rightarrow> string" where
  "substring s a b = take (max a b - min a b) (drop (min a b) s)"

fun splitOn :: "char \<Rightarrow> string \<Rightarrow> string list" where
  "splitOn sep [] = [[]]"
| "splitOn sep (x # xs) =
     (if x = sep then [] # splitOn sep xs
      else (case splitOn sep xs of
              part # parts \<Rightarrow> (x # part) # parts
            | [] \<Rightarrow> [[x]]))"

definition lowerChar :: "char \<Rightarrow> char" where
  "lowerChar c =
     (let n = (of_char c :: nat)
      in if (65 \<le> n \<and> n \<le> 90) \<or> (192 \<le> n \<and> n \<le> 222 \<and> n \<noteq> 215)
         then char_of (n + 32) else c)"

definition toLowerCase :: "string \<Rightarrow> string" where
  "toLowerCase s = map lowerChar s"

text \<open>
  What a \<open>throw\<close> or a rejected promise carries: an \<open>Error\<close> object with its name and
  message, or any other value.
\<close>

datatype throwable = ErrorObject string string | Thrown js_value

text \<open>\<open>`${error}`\<close>\<close>

fun errorToString :: "throwable \<Rightarrow> string" where
  "errorToString (ErrorObject name message) =
     (if name = [] then message else if message = [] then name else name @ '': '' @ message)"
| "errorToString (Thrown v) = String_of v"

section \<open>Regular expressions and String.prototype.replace\<close>

text \<open>
  The regular expressions of the program are sequences of single-character classes,
  each taken once, optionally, or any number of times (greedy, giving characters back
  when the rest does not match), with one capture group and the end-of-input anchor.
  \<open>matchItems\<close> tries the alternatives in the order the backtracking matcher of
  JavaScript does, and returns the length of the match and the captured groups.
\<close>

datatype char_class = Exactly char | NotExactly char | WhiteSpace | WordChar

fun classMatches :: "char_class \<Rightarrow> char \<Rightarrow> bool" where
  "classMatches (Exactly c) x \<longleftrightarrow> x = c"
| "classMatches (NotExactly c) x \<longleftrightarrow> x \<noteq> c"
| "classMatches WhiteSpace x \<longleftrightarrow> isWhiteSpace x"
| "classMatches WordChar x \<longleftrightarrow> isWordChar x"

datatype regex_item =
    One char_class
  | Optional char_class
  | Star char_class
  | GroupOpen
  | GroupClose
  | EndOfInput

type_synonym regex = "regex_item list"

fun extendGroup :: "string option \<Rightarrow> char \<Rightarrow> string option" where
  "extendGroup None x = None"
| "extendGroup (Some acc) x = Some (acc @ [x])"

fun advance :: "(nat \<times> string list) option \<Rightarrow> (nat \<times> string list) option" where
  "advance None = None"
| "advance (Some (k, caps)) = Some (Suc k, caps)"

fun matchItems :: "regex \<Rightarrow> string \<Rightarrow> string option \<Rightarrow> string list \<Rightarrow> (nat \<times> string list) option" where
  "matchItems [] s grp caps = Some (0, caps)"
| "matchItems (GroupOpen # ps) s grp caps = matchItems ps s (Some []) caps"
| "matchItems (GroupClose # ps) s grp caps =
     matchItems ps s None (caps @ [case grp of Some acc \<Rightarrow> acc | None \<Rightarrow> []])"
| "matchItems (EndOfInput # ps) s grp caps = (if s = [] then matchItems ps s grp caps else None)"
| "matchItems (One c # ps) [] grp caps = None"
| "matchItems (One c # ps) (x # xs) grp caps =
     (if classMatches c x then advance (matchItems ps xs (extendGroup grp x) caps) else None)"
| "matchItems (Optional c # ps) [] grp caps = matchItems ps [] grp caps"
| "matchItems (Optional c # ps) (x # xs) grp caps =
     (if classMatches c x then
        (case matchItems ps xs (extendGroup grp x) caps of
           Some r \<Rightarrow> advance (Some r)
         | None \<Rightarrow> matchItems ps (x # xs) grp caps)
      else matchItems ps (x # xs) grp caps)"
| "matchItems (Star c # ps) [] grp caps = matchItems ps [] grp caps"
| "matchItems (Star c # ps) (x # xs) grp caps =
     (if classMatches c x then
        (case matchItems (Star c # ps) xs (extendGroup grp x) caps of
           Some r \<Rightarrow> advance (Some r)
         | None \<Rightarrow> matchItems ps (x # xs) grp caps)
      else matchItems ps (x # xs) grp caps)"

definition matchAt :: "regex \<Rightarrow> string \<Rightarrow> (nat \<times> string list) option" where
  "matchAt re s = matchItems re s None []"

definition digitValue :: "char \<Rightarrow> nat" where
  "digitValue c = of_char c - 48"

text \<open>
  The replacement text of \<open>replace(regex, string)\<close>: \<open>$$\<close>, \<open>$&\<close>, \<open>$`\<close>, \<open>$'\<close> and
  \<open>$n\<close>, \<open>$nn\<close> are patterns (GetSubstitution of ECMAScript); a group number beyond the
  groups of the expression is left as it is written.
\<close>

fun expandReplacement :: "string list \<Rightarrow> string \<Rightarrow> string \<Rightarrow> string \<Rightarrow> string \<Rightarrow> string" where
  "expandReplacement caps matched preceding following [] = []"
| "expandReplacement caps matched preceding following [c] = [c]"
| "expandReplacement caps matched preceding following (c # d # rest) =
     (if c \<noteq> CHR ''$'' then c # expandReplacement caps matched preceding following (d # rest)
      else if d = CHR ''$'' then CHR ''$'' # expandReplacement caps matched preceding following rest
      else if d = CHR ''&'' then matched @ expandReplacement caps matched preceding following rest
      else if d = CHR 0x60 then preceding @ expandReplacement caps matched preceding following rest
      else if d = CHR 0x27 then following @ expandReplacement caps matched preceding following rest
      else if isDigit d then
        (case rest of
           e # rest' \<Rightarrow>
             if isDigit e \<and> 10 * digitValue d + digitValue e \<le> length caps then
               (if 1 \<le> 10 * digitValue d + digitValue e
                then caps ! (10 * digitValue d + digitValue e - 1) @ expandReplacement caps matched preceding following rest'
                else c # d # e # expandReplacement caps matched preceding following rest')
             else if 1 \<le> digitValue d \<and> digitValue d \<le> length caps
               then caps ! (digitValue d - 1) @ expandReplacement caps matched preceding following rest
               else c # d # expandReplacement caps matched preceding following rest
         | [] \<Rightarrow>
             if 1 \<le> digitValue d \<and> digitValue d \<le> length caps
               then caps ! (digitValue d - 1)
               else [c, d])
      else c # expandReplacement caps matched preceding following (d # rest))"

text \<open>
  \<open>replace\<close> with a global expression: every match, leftmost first and not overlapping,
  is replaced.  \<open>passed\<close> holds the part of the subject already passed, last character
  first, and the counter says how many characters of the last match are still to be
  skipped.
\<close>

fun replaceFrom :: "regex \<Rightarrow> string \<Rightarrow> string \<Rightarrow> nat \<Rightarrow> string \<Rightarrow> string" where
  "replaceFrom re replacement passed (Suc k) (x # xs) = replaceFrom re replacement (x # passed) k xs"
| "replaceFrom re replacement passed (Suc k) [] = []"
| "replaceFrom re replacement passed 0 [] =
     (case matchAt re [] of
        None \<Rightarrow> []
      | Some (len, caps) \<Rightarrow> expandReplacement caps [] (rev passed) [] replacement)"
| "replaceFrom re replacement passed 0 (x # xs) =
     (case matchAt re (x # xs) of
        None \<Rightarrow> x # replaceFrom re replacement (x # passed) 0 xs
      | Some (len, caps) \<Rightarrow>
          expandReplacement caps (take len (x # xs)) (rev passed) (drop len (x # xs)) replacement @
          (if len = 0 then x # replaceFrom re replacement (x # passed) 0 xs
           else replaceFrom re replacement (x # passed) (len - 1) xs))"

definition replaceAll :: "regex \<Rightarrow> string \<Rightarrow> string \<Rightarrow> string" where
  "replaceAll re replacement s = replaceFrom re replacement [] 0 s"

text \<open>
  The expression \<open>new RegExp(`\\{\\{\\s*\\.?${key}\\s*\\}\\}`, 'g')\<close>.  The key is pasted
  into the source of the expression; it stands for itself when it holds none of the
  syntax characters of regular expressions, and the embedding reads every key so.
\<close>

definition literal :: "string \<Rightarrow> regex" where
  "literal s = map (\<lambda>c. One (Exactly c)) s"

definition tokenRegex :: "string \<Rightarrow> regex" where
  "tokenRegex key =
     literal ''{{'' @ [Star WhiteSpace, Optional (Exactly CHR ''.'')] @ literal key @
     [Star WhiteSpace] @ literal ''}}''"

definition literalKey :: "string \<Rightarrow> bool" where
  "literalKey key \<longleftrightarrow> list_all (\<lambda>c. c \<notin> set (CHR 0x5C # ''^$.*+?()[]{}|'')) key"

section \<open>TemplateRenderer\<close>

record TemplateData =
  content :: string
  tags :: js_value
  filename :: string
  absoluteFilePath :: string
  relativeFilePath :: string
  markdownLink :: string
  dateProcessed :: string
  pageCount :: int
  modelUsed :: string
  customVariables :: "(string \<times> js_value) list"

text \<open>
  What the program reads of \<open>new Date()\<close>: the result of \<open>toISOString()\<close> and the
  whole seconds since local midnight.
\<close>

record clock =
  isoString :: string
  secondsSinceMidnight :: nat

text \<open>\<open>data.content.replace(/\{\{/g, '\\{\\{').replace(/\}\}/g, '\\}\\}')\<close>\<close>

definition escapeContent :: "string \<Rightarrow> string" where
  "escapeContent c =
     replaceAll (literal ''}}'') [CHR 0x5C, CHR ''}'', CHR 0x5C, CHR ''}'']
       (replaceAll (literal ''{{'') [CHR 0x5C, CHR ''{'', CHR 0x5C, CHR ''{''] c)"

text \<open>
  The entries of \<open>escapedData\<close> whose value is a string or a number, in the order of the
  object: \<open>tags\<close> and \<open>customVariables\<close> are passed over by the \<open>typeof\<close> test, unless
  \<open>tags\<close> holds a string or a number.
\<close>

definition scalarField :: "string \<Rightarrow> js_value \<Rightarrow> (string \<times> string) list" where
  "scalarField key value =
     (case value of
        JString s \<Rightarrow> [(key, s)]
      | JNumber i \<Rightarrow> [(key, showInt i)]
      | _ \<Rightarrow> [])"

definition scalarEntries :: "TemplateData \<Rightarrow> (string \<times> string) list" where
  "scalarEntries data =
     [(''content'', escapeContent (content data))] @
     scalarField ''tags'' (tags data) @
     [(''filename'', filename data),
      (''absoluteFilePath'', absoluteFilePath data),
      (''relativeFilePath'', relativeFilePath data),
      (''markdownLink'', markdownLink data),
      (''dateProcessed'', dateProcessed data),
      (''pageCount'', showInt (pageCount data)),
      (''modelUsed'', modelUsed data)]"

text \<open>First loop: \<open>{{key}}\<close> for every scalar field.\<close>

definition replaceScalars :: "(string \<times> string) list \<Rightarrow> string \<Rightarrow> string" where
  "replaceScalars entries template =
     foldl (\<lambda>result (key, value). replaceAll (tokenRegex key) value result) template entries"

text \<open>Second loop: \<open>{{customVariables.key}}\<close> and \<open>{{key}}\<close> for every custom variable,
  whatever the type of its value.\<close>

definition replaceCustom :: "(string \<times> js_value) list \<Rightarrow> string \<Rightarrow> string" where
  "replaceCustom vars template =
     foldl (\<lambda>result (key, value).
              replaceAll (tokenRegex key) (String_of value)
                (replaceAll (tokenRegex (''customVariables.'' @ key)) (String_of value) result))
           template vars"

text \<open>\<open>items.map(item => `  - ${item}`).join('\n')\<close>\<close>

definition yamlItems :: "js_value list \<Rightarrow> string" where
  "yamlItems xs = joinWith [CHR 0x0A] (map (\<lambda>item. ''  - '' @ String_of item) xs)"

text \<open>The \<open>tags\<close> step: \<open>data.tags || data.customVariables.tags\<close>, then the block sequence
  for a non-empty array and \<open>tags: []\<close> otherwise.\<close>

definition replaceTags :: "TemplateData \<Rightarrow> string \<Rightarrow> string" where
  "replaceTags data result =
     (let t = (if truthy (tags data) then tags data
               else getProperty (customVariables data) ''tags'')
      in case t of
           JArray (x # xs) \<Rightarrow>
             replaceAll (tokenRegex ''tags'') (CHR 0x0A # yamlItems (x # xs)) result
         | _ \<Rightarrow>
             replaceAll (literal ''tags:'' @ [Star WhiteSpace] @ tokenRegex ''tags'') ''tags: []'' result)"

text \<open>The expression \<open>(\w+):\s*\{\{\s*\.?key\s*\}\}\<close>.\<close>

definition arrayRegex :: "string \<Rightarrow> regex" where
  "arrayRegex key =
     [GroupOpen, One WordChar, Star WordChar, GroupClose] @ literal '':'' @
     [Star WhiteSpace] @ tokenRegex key"

text \<open>Last loop: the arrays among the custom variables other than \<open>tags\<close>.\<close>

definition replaceArrays :: "(string \<times> js_value) list \<Rightarrow> string \<Rightarrow> string" where
  "replaceArrays vars template =
     foldl (\<lambda>result (key, value).
              case value of
                JArray xs \<Rightarrow>
                  if key \<noteq> ''tags'' then
                    (if xs \<noteq> []
                     then replaceAll (arrayRegex key) (''$1:'' @ [CHR 0x0A] @ yamlItems xs) result
                     else replaceAll (arrayRegex key) ''$1: []'' result)
                  else result
              | _ \<Rightarrow> result)
           template vars"

definition renderTemplate :: "string \<Rightarrow> TemplateData \<Rightarrow> string" where
  "renderTemplate template data =
     replaceArrays (customVariables data)
       (replaceTags data
          (replaceCustom (customVariables data)
             (replaceScalars (scalarEntries data) template)))"

text \<open>
  \<open>originalFilename.replace(/\.[^.]+$/, '')\<close> and
  \<open>originalFilename.match(/\.[^.]+$/)?.[0] || ''\<close>: the first position where the
  expression matches, if any.
\<close>

definition extensionRegex :: regex where
  "extensionRegex = [One (Exactly CHR ''.''), One (NotExactly CHR ''.''), Star (NotExactly CHR ''.''), EndOfInput]"

fun firstMatch :: "regex \<Rightarrow> string \<Rightarrow> string \<Rightarrow> (string \<times> string \<times> string) option" where
  "firstMatch re preceding [] =
     (case matchAt re [] of None \<Rightarrow> None | Some (len, caps) \<Rightarrow> Some (preceding, [], []))"
| "firstMatch re preceding (x # xs) =
     (case matchAt re (x # xs) of
        None \<Rightarrow> firstMatch re (preceding @ [x]) xs
      | Some (len, caps) \<Rightarrow> Some (preceding, take len (x # xs), drop len (x # xs)))"

definition baseNameOf :: "string \<Rightarrow> string" where
  "baseNameOf originalFilename =
     (case firstMatch extensionRegex [] originalFilename of
        None \<Rightarrow> originalFilename
      | Some (preceding, matched, following) \<Rightarrow> preceding @ following)"

definition extensionOf :: "string \<Rightarrow> string" where
  "extensionOf originalFilename =
     (case firstMatch extensionRegex [] originalFilename of
        None \<Rightarrow> []
      | Some (preceding, matched, following) \<Rightarrow> matched)"

text \<open>The object \<open>data\<close> of \<open>generateFilename\<close>: the five built-in entries, then the
  custom variables spread over them.\<close>

definition filenameData :: "string \<Rightarrow> (string \<times> js_value) list \<Rightarrow> clock \<Rightarrow> (string \<times> js_value) list" where
  "filenameData originalFilename customVars now =
     spread
       [(''baseName'', JString (baseNameOf originalFilename)),
        (''extension'', JString (extensionOf originalFilename)),
        (''originalFilename'', JString originalFilename),
        (''dateProcessed'', JString (isoString now)),
        (''secondsBase36'', JString (showNat 36 (secondsSinceMidnight now)))]
       customVars"

definition generateFilename :: "string \<Rightarrow> string \<Rightarrow> (string \<times> js_value) list \<Rightarrow> clock \<Rightarrow> string" where
  "generateFilename template originalFilename customVars now =
     foldl (\<lambda>result (key, value). replaceAll (tokenRegex key) (String_of value) result)
           template (filenameData originalFilename customVars now)"

definition createTemplateData ::
  "string \<Rightarrow> js_value \<Rightarrow> string \<Rightarrow> string \<Rightarrow> string \<Rightarrow> int \<Rightarrow> string
     \<Rightarrow> (string \<times> js_value) list \<Rightarrow> (string \<times> js_value) list \<Rightarrow> clock \<Rightarrow> TemplateData" where
  "createTemplateData content' tags' filename' filePath markdownLink' pageCount' modelUsed'
       customVars extractedVars now =
     \<lparr>content = content',
      tags = tags',
      filename = filename',
      absoluteFilePath = filePath,
      relativeFilePath = filePath,
      markdownLink = markdownLink',
      dateProcessed = isoString now,
      pageCount = pageCount',
      modelUsed = modelUsed',
      customVariables = spread (spread [] customVars) extractedVars\<rparr>"

section \<open>Settings\<close>

datatype variable_type = TString | TArray | TNumber

record ExtractableVariable =
  var_name :: string
  var_type :: variable_type
  var_description :: string

record HandwriteSettings =
  geminiApiKey :: string
  geminiModel :: string
  prompt :: string
  extractableVariables :: "ExtractableVariable list"
  templateContent :: string
  filenameTemplate :: string
  outputFolder :: string
  concurrentWorkers :: int
  showProgressBar :: bool
  debugMode :: bool
  moveFilesAfterProcessing :: bool
  processedFilesFolder :: string
  defaultTags :: "string list"
  autoOpenCreatedNotes :: bool

definition DEFAULT_TEMPLATE :: string where
  "DEFAULT_TEMPLATE =
     ''---\<newline>attachments: \<newline>  - {{markdownLink}}\<newline>dateCreated: {{dateProcessed}}\<newline>tags: {{tags}}\<newline>dateModified: {{dateProcessed}}\<newline>---\<newline>\<newline># Handwritten Note\<newline>\<newline>{{content}}''"

definition DEFAULT_PROMPT :: string where
  "DEFAULT_PROMPT =
     ''Extract the handwritten text from this image.\<newline>'' @
     ''- Put the main text content in the '' @ [CHR 0x22] @ ''content'' @ [CHR 0x22] @
     '' field, preserving ALL line breaks and formatting\<newline>'' @
     ''- Use $ for LaTeX, not ```latex.\<newline>'' @
     ''- Transcribe the text exactly as it appears, including newlines, spacing, and paragraph breaks.\<newline>'' @
     ''- IMPORTANT: Preserve all line breaks and whitespace in the content field.''"

definition DEFAULT_SETTINGS :: HandwriteSettings where
  "DEFAULT_SETTINGS =
     \<lparr>geminiApiKey = [],
      geminiModel = ''gemini-2.5-flash-preview-05-20'',
      prompt = DEFAULT_PROMPT,
      extractableVariables =
        [\<lparr>var_name = ''tags'', var_type = TArray,
          var_description = ''Find any hashtags (words starting with #) and list them. If no hashtags are found, return an empty array.''\<rparr>],
      templateContent = DEFAULT_TEMPLATE,
      filenameTemplate = ''{{baseName}}.md'',
      outputFolder = ''Handwritten Notes'',
      concurrentWorkers = 4,
      showProgressBar = True,
      debugMode = False,
      moveFilesAfterProcessing = False,
      processedFilesFolder = ''Processed Handwritten Files'',
      defaultTags = [],
      autoOpenCreatedNotes = False\<rparr>"

section \<open>GeminiClient\<close>

text \<open>\<open>buildPrompt\<close>\<close>

fun typeName :: "variable_type \<Rightarrow> string" where
  "typeName TString = ''string''"
| "typeName TArray = ''array''"
| "typeName TNumber = ''number''"

fun exampleValue :: "variable_type \<Rightarrow> string" where
  "exampleValue TArray = ''[]''"
| "exampleValue TNumber = ''0''"
| "exampleValue TString = [CHR 0x22, CHR 0x22]"

definition variableLine :: "ExtractableVariable \<Rightarrow> string" where
  "variableLine v =
     ''- '' @ var_name v @ '' ('' @ typeName (var_type v) @ ''): '' @ var_description v @ [CHR 0x0A]"

definition exampleField :: "ExtractableVariable \<Rightarrow> string" where
  "exampleField v = ''  '' @ [CHR 0x22] @ var_name v @ [CHR 0x22] @ '': '' @ exampleValue (var_type v)"

definition buildPrompt :: "string \<Rightarrow> ExtractableVariable list \<Rightarrow> string" where
  "buildPrompt basePrompt extractableVars =
     basePrompt @
     (if extractableVars \<noteq> []
      then [CHR 0x0A, CHR 0x0A] @ ''Additionally, extract the following variables:'' @ [CHR 0x0A] @
           concat (map variableLine extractableVars)
      else []) @
     [CHR 0x0A, CHR 0x0A] @
     ''Return the response in valid JSON format with the following structure:'' @ [CHR 0x0A] @
     ''{'' @ [CHR 0x0A] @
     ''  '' @ [CHR 0x22] @ ''content'' @ [CHR 0x22] @ '': '' @ [CHR 0x22] @ ''the transcribed text'' @ [CHR 0x22] @
     (if extractableVars \<noteq> []
      then '','' @ [CHR 0x0A] @ joinWith ('','' @ [CHR 0x0A]) (map exampleField extractableVars)
      else []) @
     [CHR 0x0A] @ ''}''"

text \<open>
  \<open>parseJSONResponse\<close>, in its three steps: the text between code fences, the span from
  the first \<open>{\<close> to the last \<open>}\<close>, and \<open>JSON.parse\<close>.  \<open>JSON.parse\<close> belongs to the
  platform and is a parameter: it returns the decoded value or throws.
\<close>

definition fencedPayload :: "string \<Rightarrow> string" where
  "fencedPayload text =
     (if includesText text ''```json'' then
        (case indexOf text ''```json'' 0 of
           None \<Rightarrow> text
         | Some i \<Rightarrow>
             (case indexOf text ''```'' (i + 7) of
                None \<Rightarrow> text
              | Some e \<Rightarrow> if 0 < e then trim (substring text (i + 7) e) else text))
      else if includesText text ''```'' then
        (case indexOf text ''```'' 0 of
           None \<Rightarrow> text
         | Some i \<Rightarrow>
             (case indexOf text ''```'' (i + 3) of
                None \<Rightarrow> text
              | Some e \<Rightarrow> if 0 < e then trim (substring text (i + 3) e) else text))
      else text)"

definition braceSlice :: "string \<Rightarrow> string" where
  "braceSlice jsonStr =
     (case indexOf jsonStr ''{'' 0 of
        None \<Rightarrow> jsonStr
      | Some jsonStart \<Rightarrow>
          (case lastIndexOf jsonStr ''}'' of
             None \<Rightarrow> jsonStr
           | Some jsonEnd \<Rightarrow>
               if jsonEnd > jsonStart then substring jsonStr jsonStart (jsonEnd + 1) else jsonStr))"

definition parseJSONResponse ::
  "(string \<Rightarrow> throwable + js_value) \<Rightarrow> string option \<Rightarrow> throwable + js_value" where
  "parseJSONResponse JSON_parse text =
     (case text of
        None \<Rightarrow> Inl (ErrorObject ''Error'' ''No response text received'')
      | Some t \<Rightarrow>
          if t = [] then Inl (ErrorObject ''Error'' ''No response text received'')
          else JSON_parse (braceSlice (fencedPayload t)))"

record StructuredResponse =
  response_content :: js_value
  extractedVariables :: "(string \<times> js_value) list"

text \<open>
  Reading a property of the parsed value and the \<open>in\<close> test.  An object has the members
  \<open>JSON.parse\<close> gave it and an array its indices and \<open>length\<close> (the members inherited from
  \<open>Object.prototype\<close> and \<open>Array.prototype\<close> are left out); \<open>null\<close> has no properties to
  read, and \<open>in\<close> refuses what is not an object.
\<close>

definition arrayIndex :: "string \<Rightarrow> js_value list \<Rightarrow> nat option" where
  "arrayIndex key xs = find (\<lambda>i. showNat 10 i = key) [0..<length xs]"

fun readProperty :: "js_value \<Rightarrow> string \<Rightarrow> throwable + js_value" where
  "readProperty JNull key =
     Inl (ErrorObject ''TypeError'' (''Cannot read properties of null (reading '' @ [CHR 0x27] @ key @ [CHR 0x27] @ '')''))"
| "readProperty JUndefined key =
     Inl (ErrorObject ''TypeError'' (''Cannot read properties of undefined (reading '' @ [CHR 0x27] @ key @ [CHR 0x27] @ '')''))"
| "readProperty (JObject kvs) key = Inr (getProperty kvs key)"
| "readProperty (JArray xs) key =
     Inr (if key = ''length'' then JNumber (int (length xs))
          else (case arrayIndex key xs of Some i \<Rightarrow> xs ! i | None \<Rightarrow> JUndefined))"
| "readProperty (JString s) key =
     Inr (if key = ''length'' then JNumber (int (length s))
          else (case find (\<lambda>i. showNat 10 i = key) [0..<length s] of
                  Some i \<Rightarrow> JString [s ! i] | None \<Rightarrow> JUndefined))"
| "readProperty v key = Inr JUndefined"

fun hasProperty :: "string \<Rightarrow> js_value \<Rightarrow> throwable + bool" where
  "hasProperty key (JObject kvs) = Inr (key \<in> set (map fst kvs))"
| "hasProperty key (JArray xs) = Inr (key = ''length'' \<or> arrayIndex key xs \<noteq> None)"
| "hasProperty key v =
     Inl (ErrorObject ''TypeError''
            (''Cannot use '' @ [CHR 0x27] @ ''in'' @ [CHR 0x27] @ '' operator to search for '' @
             [CHR 0x27] @ key @ [CHR 0x27] @ '' in '' @ String_of v))"

text \<open>The loop \<open>for (const variable of extractableVars)\<close> over the bag built so far.\<close>

fun extractVariables ::
  "js_value \<Rightarrow> ExtractableVariable list \<Rightarrow> (string \<times> js_value) list
     \<Rightarrow> throwable + (string \<times> js_value) list" where
  "extractVariables parsed [] bag = Inr bag"
| "extractVariables parsed (variable # rest) bag =
     (case hasProperty (var_name variable) parsed of
        Inl e \<Rightarrow> Inl e
      | Inr False \<Rightarrow> extractVariables parsed rest bag
      | Inr True \<Rightarrow>
          (case readProperty parsed (var_name variable) of
             Inl e \<Rightarrow> Inl e
           | Inr v \<Rightarrow> extractVariables parsed rest (setProperty bag (var_name variable) v)))"

text \<open>The statements between \<open>const text = result.text\<close> and \<open>return structuredResponse\<close>,
  the same in both entry points.\<close>

definition toStructuredResponse ::
  "(string \<Rightarrow> throwable + js_value) \<Rightarrow> ExtractableVariable list \<Rightarrow> string option
     \<Rightarrow> throwable + StructuredResponse" where
  "toStructuredResponse JSON_parse extractableVars text =
     (case parseJSONResponse JSON_parse text of
        Inl e \<Rightarrow> Inl e
      | Inr parsed \<Rightarrow>
          (case readProperty parsed ''content'' of
             Inl e \<Rightarrow> Inl e
           | Inr c \<Rightarrow>
               (case extractVariables parsed extractableVars [] of
                  Inl e \<Rightarrow> Inl e
                | Inr bag \<Rightarrow>
                    Inr \<lparr>response_content = (if truthy c then c else JString []),
                         extractedVariables = bag\<rparr>)))"

section \<open>FileProcessor.mergeTagsWithDefaults\<close>

text \<open>The first half of the function: an array is taken as it is, a bare string becomes
  a one-element array, anything else the empty array.\<close>

definition normalizeTags :: "js_value \<Rightarrow> js_value list" where
  "normalizeTags extractedTags =
     (case extractedTags of
        JArray xs \<Rightarrow> xs
      | JString s \<Rightarrow> [JString s]
      | _ \<Rightarrow> [])"

text \<open>The \<open>for (const tag of tags)\<close> loop over the accumulator \<open>allTags\<close>.\<close>

fun pushTags :: "string list \<Rightarrow> js_value list \<Rightarrow> string list" where
  "pushTags allTags [] = allTags"
| "pushTags allTags (tag # rest) =
     pushTags
       (case tag of
          JString s \<Rightarrow> if trim s \<noteq> [] \<and> s \<notin> set allTags then allTags @ [s] else allTags
        | _ \<Rightarrow> allTags)
       rest"

definition mergeTagsWithDefaults :: "HandwriteSettings \<Rightarrow> js_value \<Rightarrow> string list" where
  "mergeTagsWithDefaults settings extractedTags =
     pushTags (defaultTags settings) (normalizeTags extractedTags)"

text \<open>The strings of a tag array that pass the loop's type and blank tests.\<close>

fun acceptable :: "js_value \<Rightarrow> string option" where
  "acceptable (JString s) = (if trim s \<noteq> [] then Some s else None)"
| "acceptable _ = None"

text \<open>Each string of a list once, at its first occurrence.\<close>

fun firstOccurrences :: "string list \<Rightarrow> string list" where
  "firstOccurrences [] = []"
| "firstOccurrences (x # xs) = x # firstOccurrences (filter (\<lambda>y. y \<noteq> x) xs)"

section \<open>The collaborators of FileProcessor\<close>

text \<open>The fields of an Obsidian \<open>TFile\<close> that the processor reads.\<close>

record TFile =
  file_name :: string
  file_path :: string
  basename :: string
  extension :: string

record ProcessingResult =
  success :: bool
  filePath :: "string option"
  error :: "string option"

text \<open>
  The vault, the file manager, the workspace, the Gemini service and the clock belong to
  the host.  An operation on them takes the state of the host (of any type \<open>'v\<close>) and
  returns the new state with either the value or what was thrown: an \<open>await\<close> of a
  rejected promise and a \<open>throw\<close> are both \<open>Inl\<close>.
\<close>

type_synonym ('v, 'a) io = "'v \<Rightarrow> (throwable + 'a) \<times> 'v"

definition ret :: "'a \<Rightarrow> ('v, 'a) io" where
  "ret a v = (Inr a, v)"

definition throw :: "throwable \<Rightarrow> ('v, 'a) io" where
  "throw e v = (Inl e, v)"

definition bind :: "('v, 'a) io \<Rightarrow> ('a \<Rightarrow> ('v, 'b) io) \<Rightarrow> ('v, 'b) io" where
  "bind m f v = (case m v of (Inl e, v') \<Rightarrow> (Inl e, v') | (Inr a, v') \<Rightarrow> f a v')"

definition tryCatch :: "('v, 'a) io \<Rightarrow> (throwable \<Rightarrow> ('v, 'a) io) \<Rightarrow> ('v, 'a) io" where
  "tryCatch m handler v = (case m v of (Inl e, v') \<Rightarrow> handler e v' | (Inr a, v') \<Rightarrow> (Inr a, v'))"

definition lift :: "throwable + 'a \<Rightarrow> ('v, 'a) io" where
  "lift r v = (r, v)"

datatype abstract_file = IsFile TFile | IsFolder

record 'v host =
  readBinary :: "TFile \<Rightarrow> ('v, nat list) io"
  generateContent :: "string \<Rightarrow> string \<Rightarrow> string \<Rightarrow> nat list \<Rightarrow> ('v, string option) io"
  JSON_parse :: "string \<Rightarrow> throwable + js_value"
  normalizePath :: "string \<Rightarrow> string"
  getAbstractFileByPath :: "string \<Rightarrow> ('v, abstract_file option) io"
  createFolder :: "string \<Rightarrow> ('v, unit) io"
  vault_process :: "TFile \<Rightarrow> string \<Rightarrow> ('v, unit) io"
  vault_create :: "string \<Rightarrow> string \<Rightarrow> ('v, unit) io"
  generateMarkdownLink :: "TFile \<Rightarrow> string \<Rightarrow> ('v, string) io"
  renameFile :: "TFile \<Rightarrow> string \<Rightarrow> ('v, unit) io"
  openFile :: "TFile \<Rightarrow> ('v, unit) io"
  newDate :: "('v, clock) io"

section \<open>GeminiClient.extractStructuredTextFromImage and extractStructuredTextFromPDF\<close>

text \<open>
  Both call the service with the built prompt and the data, decode the reply, and wrap
  whatever is thrown on the way in a new \<open>Error\<close>.
\<close>

definition extractStructuredText ::
  "string \<Rightarrow> 'v host \<Rightarrow> HandwriteSettings \<Rightarrow> nat list \<Rightarrow> string \<Rightarrow> string \<Rightarrow> ExtractableVariable list
     \<Rightarrow> ('v, StructuredResponse) io" where
  "extractStructuredText failure host settings fileData mimeType prompt' extractableVars =
     tryCatch
       (bind (generateContent host (geminiModel settings) (buildPrompt prompt' extractableVars) mimeType fileData)
          (\<lambda>text. lift (toStructuredResponse (JSON_parse host) extractableVars text)))
       (\<lambda>e. throw (ErrorObject ''Error'' (failure @ errorToString e)))"

definition extractStructuredTextFromImage ::
  "'v host \<Rightarrow> HandwriteSettings \<Rightarrow> nat list \<Rightarrow> string \<Rightarrow> string \<Rightarrow> ExtractableVariable list
     \<Rightarrow> ('v, StructuredResponse) io" where
  "extractStructuredTextFromImage host settings imageData mimeType prompt' extractableVars =
     extractStructuredText ''Failed to process image: '' host settings imageData mimeType prompt' extractableVars"

definition extractStructuredTextFromPDF ::
  "'v host \<Rightarrow> HandwriteSettings \<Rightarrow> nat list \<Rightarrow> string \<Rightarrow> ExtractableVariable list
     \<Rightarrow> ('v, StructuredResponse) io" where
  "extractStructuredTextFromPDF host settings pdfData prompt' extractableVars =
     extractStructuredText ''Failed to process PDF: '' host settings pdfData ''application/pdf'' prompt' extractableVars"

section \<open>FileProcessor.processFile\<close>

definition isSupportedFile :: "string \<Rightarrow> bool" where
  "isSupportedFile ext \<longleftrightarrow>
     toLowerCase ext \<in> set [''pdf'', ''png'', ''jpg'', ''jpeg'', ''webp'', ''gif'']"

definition getMimeType :: "string \<Rightarrow> string" where
  "getMimeType ext =
     (case map_of [(''png'', ''image/png''), (''jpg'', ''image/jpeg''), (''jpeg'', ''image/jpeg''),
                   (''webp'', ''image/webp''), (''gif'', ''image/gif'')] (toLowerCase ext) of
        Some m \<Rightarrow> m
      | None \<Rightarrow> ''image/jpeg'')"

text \<open>\<open>getRelativePath\<close>\<close>

fun commonLength :: "string list \<Rightarrow> string list \<Rightarrow> nat" where
  "commonLength (a # as) (b # bs) = (if a = b then Suc (commonLength as bs) else 0)"
| "commonLength as bs = 0"

definition getRelativePath :: "string \<Rightarrow> string \<Rightarrow> string" where
  "getRelativePath fromPath toPath =
     (let fromParts = butlast (splitOn CHR ''/'' fromPath);
          toParts = splitOn CHR ''/'' toPath;
          common = commonLength fromParts toParts;
          relativeParts = replicate (length fromParts - common) ''..'' @ drop common toParts;
          joined = joinWith ''/'' relativeParts
      in if joined = [] then ''.'' else joined)"

text \<open>\<open>createNote\<close>, called with the transcribed text and the extracted variables of the
  response.\<close>

definition createNote ::
  "'v host \<Rightarrow> HandwriteSettings \<Rightarrow> TFile \<Rightarrow> string \<Rightarrow> (string \<times> js_value) list \<Rightarrow> ('v, string) io" where
  "createNote host settings sourceFile content' extracted =
     bind (newDate host) (\<lambda>now.
     let outputFilename = generateFilename (filenameTemplate settings) (basename sourceFile) extracted now;
         outputFolder' = normalizePath host (outputFolder settings)
     in
     bind (getAbstractFileByPath host outputFolder') (\<lambda>folder.
     bind (if folder = None then createFolder host outputFolder' else ret ()) (\<lambda>_.
     let outputPath = normalizePath host (outputFolder' @ ''/'' @ outputFilename) in
     bind (if moveFilesAfterProcessing settings then
             (let processedFolder = normalizePath host (processedFilesFolder settings);
                  futureSourcePath = normalizePath host (processedFolder @ ''/'' @ file_name sourceFile)
              in ret (futureSourcePath,
                      ''[['' @ getRelativePath outputPath futureSourcePath @ ''|'' @ basename sourceFile @ '']]''))
           else
             bind (generateMarkdownLink host sourceFile outputPath)
               (\<lambda>link. ret (file_path sourceFile, link))) (\<lambda>(futureSourcePath, markdownLink').
     let extractedTags = (if truthy (getProperty extracted ''tags'')
                          then getProperty extracted ''tags'' else JArray []);
         allTags = mergeTagsWithDefaults settings extractedTags;
         mergedExtractedVariables = setProperty extracted ''tags'' (JArray (map JString allTags))
     in
     bind (newDate host) (\<lambda>now'.
     let templateData = createTemplateData content' (JArray (map JString allTags)) (basename sourceFile)
                          futureSourcePath markdownLink' 1 (geminiModel settings) []
                          mergedExtractedVariables now';
         rendered = renderTemplate (templateContent settings) templateData
     in
     bind (getAbstractFileByPath host outputPath) (\<lambda>existingFile.
     bind (case existingFile of
             Some (IsFile f) \<Rightarrow> vault_process host f rendered
           | _ \<Rightarrow> vault_create host outputPath rendered) (\<lambda>_.
     bind (if autoOpenCreatedNotes settings then
             bind (getAbstractFileByPath host outputPath) (\<lambda>createdFile.
               case createdFile of
                 Some (IsFile f) \<Rightarrow> openFile host f
               | _ \<Rightarrow> ret ())
           else ret ()) (\<lambda>_.
     ret outputPath))))))))"

text \<open>\<open>error.message\<close> in the handler of \<open>moveSourceFile\<close>: reading it from \<open>null\<close> or
  \<open>undefined\<close> throws in turn.\<close>

fun messageOf :: "throwable \<Rightarrow> throwable + string" where
  "messageOf (ErrorObject name message) = Inr message"
| "messageOf (Thrown v) =
     (case readProperty v ''message'' of Inl e \<Rightarrow> Inl e | Inr m \<Rightarrow> Inr (String_of m))"

text \<open>\<open>new Date().toISOString().replace(/[:.]/g, '-')\<close>\<close>

definition fileTimestamp :: "string \<Rightarrow> string" where
  "fileTimestamp stamp = map (\<lambda>c. if c = CHR '':'' \<or> c = CHR ''.'' then CHR ''-'' else c) stamp"

definition moveSourceFile :: "'v host \<Rightarrow> HandwriteSettings \<Rightarrow> TFile \<Rightarrow> ('v, unit) io" where
  "moveSourceFile host settings sourceFile =
     tryCatch
       (let processedFolder = normalizePath host (processedFilesFolder settings) in
        bind (getAbstractFileByPath host processedFolder) (\<lambda>folder.
        bind (if folder = None then createFolder host processedFolder else ret ()) (\<lambda>_.
        let newPath = normalizePath host (processedFolder @ ''/'' @ file_name sourceFile) in
        bind (getAbstractFileByPath host newPath) (\<lambda>existingFile.
        if existingFile \<noteq> None then
          bind (newDate host) (\<lambda>now.
            renameFile host sourceFile
              (normalizePath host
                 (processedFolder @ ''/'' @ basename sourceFile @ ''_'' @ fileTimestamp (isoString now) @
                  ''.'' @ extension sourceFile)))
        else renameFile host sourceFile newPath))))
       (\<lambda>e. case messageOf e of
               Inl e' \<Rightarrow> throw e'
             | Inr m \<Rightarrow> throw (ErrorObject ''Error'' (''Failed to move file: '' @ m)))"

text \<open>The optional progress callback of \<open>processFile\<close>: \<open>progressCallback?.(message)\<close>.\<close>

definition notify :: "(string \<Rightarrow> ('v, unit) io) option \<Rightarrow> string \<Rightarrow> ('v, unit) io" where
  "notify progressCallback message =
     (case progressCallback of None \<Rightarrow> ret () | Some callback \<Rightarrow> callback message)"

definition failed :: "string \<Rightarrow> ProcessingResult" where
  "failed message = \<lparr>success = False, filePath = None, error = Some message\<rparr>"

text \<open>The body of the \<open>try\<close> block.\<close>

definition processFileBody ::
  "'v host \<Rightarrow> HandwriteSettings \<Rightarrow> TFile \<Rightarrow> (string \<Rightarrow> ('v, unit) io) option
     \<Rightarrow> ('v, ProcessingResult) io" where
  "processFileBody host settings sourceFile progressCallback =
     (let fileExt = toLowerCase (extension sourceFile) in
      if \<not> isSupportedFile fileExt then ret (failed (''Unsupported file type: '' @ fileExt))
      else
        bind (notify progressCallback (''Reading '' @ file_name sourceFile @ ''...'')) (\<lambda>_.
        bind (readBinary host sourceFile) (\<lambda>fileData.
        bind (notify progressCallback ''Processing with Gemini...'') (\<lambda>_.
        bind (if fileExt = ''pdf''
              then extractStructuredTextFromPDF host settings fileData (prompt settings)
                     (extractableVariables settings)
              else extractStructuredTextFromImage host settings fileData (getMimeType fileExt)
                     (prompt settings) (extractableVariables settings)) (\<lambda>result.
        if \<not> truthy (response_content result) then ret (failed ''No text extracted from file'')
        else
          (case response_content result of
             JString text \<Rightarrow>
               if trim text = [] then ret (failed ''No text extracted from file'')
               else
                 bind (notify progressCallback ''Creating note...'') (\<lambda>_.
                 bind (createNote host settings sourceFile text (extractedVariables result)) (\<lambda>outputPath.
                 bind (if moveFilesAfterProcessing settings then
                         bind (notify progressCallback ''Moving source file...'')
                           (\<lambda>_. moveSourceFile host settings sourceFile)
                       else ret ()) (\<lambda>_.
                 ret \<lparr>success = True, filePath = Some outputPath, error = None\<rparr>)))
           | _ \<Rightarrow> throw (ErrorObject ''TypeError'' ''result.content.trim is not a function'')))))))"

text \<open>\<open>error instanceof Error ? error.message : 'Unknown error'\<close>\<close>

definition errorMessage :: "throwable \<Rightarrow> string" where
  "errorMessage e = (case e of ErrorObject name message \<Rightarrow> message | Thrown v \<Rightarrow> ''Unknown error'')"

text \<open>\<open>processFile\<close>: the \<open>try\<close> block and its handler.  \<open>Inl\<close> in the result would be the
  promise of \<open>processFile\<close> rejected.\<close>

definition processFile ::
  "'v host \<Rightarrow> HandwriteSettings \<Rightarrow> TFile \<Rightarrow> (string \<Rightarrow> ('v, unit) io) option
     \<Rightarrow> ('v, ProcessingResult) io" where
  "processFile host settings sourceFile progressCallback =
     tryCatch (processFileBody host settings sourceFile progressCallback)
       (\<lambda>e. ret (failed (errorMessage e)))"

section \<open>FileProcessor.processBatch\<close>

record BatchProcessingProgress =
  current :: nat
  total :: nat
  currentFile :: string

text \<open>
  \<open>processBatch\<close> starts its workers inside a synchronous \<open>for\<close> loop; each worker is an
  \<open>async\<close> function, so it runs until its first \<open>await\<close> and is resumed later, one
  worker at a time.  A worker is suspended at one of two places: in \<open>processNext\<close> at
  \<open>await this.processFile(file)\<close>, or in its own loop at \<open>await processNext()\<close>; or its
  promise has resolved.
\<close>

datatype worker =
    AwaitingProcessFile TFile
  | AwaitingProcessNext
  | Resolved

text \<open>
  The variables the closures of \<open>processBatch\<close> share.  \<open>processing\<close> is the set of
  worker promises, kept here in the order of insertion with the state of each worker, so
  that \<open>processing.size\<close> is the length of the list.  The two callbacks are recorded as
  the lists of the arguments they were called with.
\<close>

record batch_state =
  queue :: "TFile list"
  results :: "string \<rightharpoonup> ProcessingResult"
  completed :: nat
  processing :: "worker list"
  progressCalls :: "BatchProcessingProgress list"
  resultCalls :: "(TFile \<times> ProcessingResult) list"

text \<open>
  One turn of \<open>while (queue.length > 0) { await processNext(); }\<close> up to the suspension:
  the loop test, then the part of \<open>processNext\<close> before \<open>await this.processFile(file)\<close>.
  \<open>n\<close> is \<open>files.length\<close>.
\<close>

definition workerLoop :: "nat \<Rightarrow> batch_state \<Rightarrow> worker \<times> batch_state" where
  "workerLoop n st =
     (case queue st of
        [] \<Rightarrow> (Resolved, st)
      | file # rest \<Rightarrow>
          (AwaitingProcessFile file,
           st\<lparr>queue := rest,
              progressCalls := progressCalls st @
                [\<lparr>current = completed st + length (processing st),
                  total = n,
                  currentFile = file_name file\<rparr>]\<rparr>))"

text \<open>The part of \<open>processNext\<close> after \<open>processFile\<close> has settled with \<open>result\<close>.\<close>

definition processNextResume :: "nat \<Rightarrow> TFile \<Rightarrow> ProcessingResult \<Rightarrow> batch_state \<Rightarrow> batch_state" where
  "processNextResume n file result st =
     st\<lparr>results := (results st)(file_path file \<mapsto> result),
        completed := completed st + 1,
        resultCalls := resultCalls st @ [(file, result)],
        progressCalls := progressCalls st @
          [\<lparr>current = completed st + 1, total = n, currentFile = []\<rparr>]\<rparr>"

text \<open>
  The number of turns of \<open>for (let i = 0; i < Math.min(workers, files.length); i++)\<close>.
\<close>

definition workerCount :: "HandwriteSettings \<Rightarrow> TFile list \<Rightarrow> nat" where
  "workerCount settings files = nat (min (concurrentWorkers settings) (int (length files)))"

text \<open>The \<open>for\<close> loop: each turn runs a new worker up to its first suspension and then
  adds its promise to \<open>processing\<close>.\<close>

fun startWorkers :: "nat \<Rightarrow> nat \<Rightarrow> batch_state \<Rightarrow> batch_state" where
  "startWorkers 0 n st = st"
| "startWorkers (Suc k) n st =
     (case workerLoop n st of
        (w, st') \<Rightarrow> startWorkers k n (st'\<lparr>processing := processing st' @ [w]\<rparr>))"

definition initialState :: "TFile list \<Rightarrow> batch_state" where
  "initialState files =
     \<lparr>queue = files, results = Map.empty, completed = 0, processing = [],
      progressCalls = [], resultCalls = []\<rparr>"

text \<open>
  Resuming worker \<open>i\<close>.  \<open>pf\<close> gives the value \<open>processFile\<close> settled with for a file; a
  worker whose promise has resolved, or an index that names no worker, changes nothing.
\<close>

definition resume :: "(TFile \<Rightarrow> ProcessingResult) \<Rightarrow> nat \<Rightarrow> nat \<Rightarrow> batch_state \<Rightarrow> batch_state" where
  "resume pf n i st =
     (if i < length (processing st) then
        (case processing st ! i of
           AwaitingProcessFile file \<Rightarrow>
             (processNextResume n file (pf file) st)\<lparr>processing := (processing st)[i := AwaitingProcessNext]\<rparr>
         | AwaitingProcessNext \<Rightarrow>
             (case workerLoop n st of
                (w, st') \<Rightarrow> st'\<lparr>processing := (processing st')[i := w]\<rparr>)
         | Resolved \<Rightarrow> st)
      else st)"

text \<open>A schedule is the order in which suspended workers are resumed.\<close>

fun run :: "(TFile \<Rightarrow> ProcessingResult) \<Rightarrow> nat \<Rightarrow> nat list \<Rightarrow> batch_state \<Rightarrow> batch_state" where
  "run pf n [] st = st"
| "run pf n (i # schedule) st = run pf n schedule (resume pf n i st)"

definition allResolved :: "batch_state \<Rightarrow> bool" where
  "allResolved st \<longleftrightarrow> list_all (\<lambda>w. w = Resolved) (processing st)"

text \<open>The state of the batch after the workers were started and resumed as the schedule
  says.\<close>

definition batchRun ::
  "(TFile \<Rightarrow> ProcessingResult) \<Rightarrow> HandwriteSettings \<Rightarrow> TFile list \<Rightarrow> nat list \<Rightarrow> batch_state" where
  "batchRun pf settings files schedule =
     run pf (length files) schedule
       (startWorkers (workerCount settings files) (length files) (initialState files))"

text \<open>
  \<open>await Promise.all(processing); return results\<close>: the promise of \<open>processBatch\<close> is
  fulfilled with the map once every worker promise has resolved, and is pending (\<open>None\<close>)
  as long as one has not.
\<close>

definition processBatch ::
  "(TFile \<Rightarrow> ProcessingResult) \<Rightarrow> HandwriteSettings \<Rightarrow> TFile list \<Rightarrow> nat list
     \<Rightarrow> (string \<rightharpoonup> ProcessingResult) option" where
  "processBatch pf settings files schedule =
     (let st = batchRun pf settings files schedule
      in if allResolved st then Some (results st) else None)"

text \<open>Resuming every worker in turn, \<open>rounds\<close> times.\<close>

definition roundRobin :: "nat \<Rightarrow> nat \<Rightarrow> nat list" where
  "roundRobin workers rounds = concat (replicate rounds [0..<workers])"

text \<open>The files whose \<open>processFile\<close> call has not settled yet.\<close>

fun pendingFile :: "worker \<Rightarrow> TFile list" where
  "pendingFile (AwaitingProcessFile file) = [file]"
| "pendingFile _ = []"

definition inFlight :: "batch_state \<Rightarrow> TFile list" where
  "inFlight st = concat (map pendingFile (processing st))"

section \<open>The fence preference as the specification words it\<close>






section \<open>Invariant and progress measure of the batch\<close>

text \<open>
  What holds of the shared variables whenever control is back at the scheduler: every
  input file is recorded, in flight or still queued, exactly once; the map holds the
  results recorded so far, each the value \<open>processFile\<close> settled with; and once a worker
  has resolved the queue is empty.
\<close>

definition batchInv :: "(TFile \<Rightarrow> ProcessingResult) \<Rightarrow> TFile list \<Rightarrow> batch_state \<Rightarrow> bool" where
  "batchInv pf files st \<longleftrightarrow>
     mset (map fst (resultCalls st)) + mset (inFlight st) + mset (queue st) = mset files
   \<and> results st = map_of (rev (map (\<lambda>(f, r). (file_path f, r)) (resultCalls st)))
   \<and> completed st = length (resultCalls st)
   \<and> (Resolved \<in> set (processing st) \<longrightarrow> queue st = [])
   \<and> (\<forall>(f, r) \<in> set (resultCalls st). r = pf f)"

text \<open>Resuming a worker that has not resolved lowers this number by one.\<close>

fun weight :: "worker \<Rightarrow> nat" where
  "weight (AwaitingProcessFile f) = 2"
| "weight AwaitingProcessNext = 1"
| "weight Resolved = 0"

definition potential :: "batch_state \<Rightarrow> nat" where
  "potential st = sum_list (map weight (processing st)) + 2 * length (queue st)"

text \<open>The number of workers the \<open>for\<close> loop starts.\<close>

definition workersStarted :: "HandwriteSettings \<Rightarrow> TFile list \<Rightarrow> nat" where
  "workersStarted settings files =
     length (processing (startWorkers (workerCount settings files) (length files) (initialState files)))"

section \<open>Example inputs\<close>

definition scanA :: TFile where
  "scanA = \<lparr>file_name = ''a.png'', file_path = ''inbox/a.png'', basename = ''a'', extension = ''png''\<rparr>"

definition scanB :: TFile where
  "scanB = \<lparr>file_name = ''b.png'', file_path = ''inbox/b.png'', basename = ''b'', extension = ''png''\<rparr>"

definition scanC :: TFile where
  "scanC = \<lparr>file_name = ''c.png'', file_path = ''inbox/c.png'', basename = ''c'', extension = ''png''\<rparr>"







text \<open>Two readings of the clock, and the template data of a note for given tags and
  extracted variables.\<close>

definition newYear :: clock where
  "newYear = \<lparr>isoString = ''2025-01-01T00:00:00.000Z'', secondsSinceMidnight = 0\<rparr>"


definition exampleData :: "js_value \<Rightarrow> (string \<times> js_value) list \<Rightarrow> TemplateData" where
  "exampleData tags' extractedVars =
     createTemplateData ''Hello'' tags' ''a'' ''inbox/a.png'' ''[[a.png]]'' 1
       ''gemini-2.5-flash-preview-05-20'' [] extractedVars newYear"




definition twoWorkers :: HandwriteSettings where
  "twoWorkers = DEFAULT_SETTINGS\<lparr>concurrentWorkers := 2\<rparr>"

definition noWorkers :: HandwriteSettings where
  "noWorkers = DEFAULT_SETTINGS\<lparr>concurrentWorkers := 0\<rparr>"

definition noted :: "TFile \<Rightarrow> ProcessingResult" where
  "noted f = \<lparr>success = True, filePath = Some (''Handwritten Notes/'' @ basename f @ ''.md''), error = None\<rparr>"

(*THEOREMS*)

section \<open>Properties of the tag merge\<close>

lemma firstOccurrences_set [simp]: "set (firstOccurrences xs) = set xs"
  by (induction xs rule: firstOccurrences.induct) auto

lemma firstOccurrences_distinct [simp]: "distinct (firstOccurrences xs)"
  by (induction xs rule: firstOccurrences.induct) auto

lemma pushTags_exact:
  "pushTags allTags ts =
     allTags @ firstOccurrences (filter (\<lambda>s. s \<notin> set allTags) (List.map_filter acceptable ts))"
proof (induction ts arbitrary: allTags)
  case Nil
  show ?case by (simp add: List.map_filter_simps)
next
  case (Cons tag ts)
  show ?case
  proof (cases "acceptable tag")
    case None
    then have "pushTags allTags (tag # ts) = pushTags allTags ts"
      by (cases tag) (auto split: if_splits)
    with None Cons.IH [of allTags] show ?thesis by (simp add: List.map_filter_simps)
  next
    case (Some s)
    then have tag: "tag = JString s" "trim s \<noteq> []"
      by (cases tag; simp split: if_splits)+
    show ?thesis
    proof (cases "s \<in> set allTags")
      case True
      with tag Some Cons.IH [of allTags] show ?thesis by (simp add: List.map_filter_simps)
    next
      case False
      let ?c = "List.map_filter acceptable ts"
      have "filter (\<lambda>y. y \<noteq> s) (filter (\<lambda>u. u \<notin> set allTags) ?c)
          = filter (\<lambda>u. u \<notin> set (allTags @ [s])) ?c"
        by (auto intro!: filter_cong)
      then have "firstOccurrences (filter (\<lambda>u. u \<notin> set allTags) (s # ?c))
          = s # firstOccurrences (filter (\<lambda>u. u \<notin> set (allTags @ [s])) ?c)"
        using False by simp
      with tag Some False Cons.IH [of "allTags @ [s]"] show ?thesis
        by (simp add: List.map_filter_simps)
    qed
  qed
qed

lemma acceptable_set:
  "set (List.map_filter acceptable ts) = {s. JString s \<in> set ts \<and> trim s \<noteq> []}"
proof (induction ts)
  case Nil
  show ?case by (simp add: List.map_filter_simps)
next
  case (Cons t ts)
  show ?case
    by (cases t) (auto simp: List.map_filter_simps Cons.IH)
qed

text \<open>
  Claim C10.  The list returned by \<open>mergeTagsWithDefaults\<close> is \<open>settings.defaultTags\<close> as it
  is (order and repetitions kept) followed by appended entries; an extracted entry is
  among the appended ones exactly when it is a string, is not empty after trimming and
  is not among the defaults, and none is appended twice.  Entries that are not strings or
  are blank are dropped: the function has no error result.
\<close>

theorem mergeTagsWithDefaults_defaults_then_new:
  "\<exists>added. mergeTagsWithDefaults settings extractedTags = defaultTags settings @ added
     \<and> distinct added
     \<and> set added =
         {s. JString s \<in> set (normalizeTags extractedTags) \<and> trim s \<noteq> []
             \<and> s \<notin> set (defaultTags settings)}"
proof -
  let ?added = "firstOccurrences (filter (\<lambda>s. s \<notin> set (defaultTags settings))
                   (List.map_filter acceptable (normalizeTags extractedTags)))"
  have "mergeTagsWithDefaults settings extractedTags = defaultTags settings @ ?added"
    by (simp add: mergeTagsWithDefaults_def pushTags_exact)
  moreover have "distinct ?added" by simp
  moreover have "set ?added = {s. JString s \<in> set (normalizeTags extractedTags) \<and> trim s \<noteq> []
             \<and> s \<notin> set (defaultTags settings)}"
    by (auto simp: acceptable_set)
  ultimately show ?thesis by blast
qed

text \<open>
  Claim C5, as stated, fails: defaults that repeat a tag stay repeated, and a blank
  extracted tag is not appended although it is not present.
\<close>

theorem mergeTagsWithDefaults_repeats_defaults:
  "mergeTagsWithDefaults (DEFAULT_SETTINGS\<lparr>defaultTags := [''a'', ''a'']\<rparr>) (JArray [JString ''b''])
      = [''a'', ''a'', ''b'']
   \<and> \<not> distinct (mergeTagsWithDefaults (DEFAULT_SETTINGS\<lparr>defaultTags := [''a'', ''a'']\<rparr>) (JArray [JString ''b'']))
   \<and> mergeTagsWithDefaults DEFAULT_SETTINGS (JArray [JString '' '']) = []"
  by (simp add: mergeTagsWithDefaults_def normalizeTags_def trim_def isWhiteSpace_def DEFAULT_SETTINGS_def)

text \<open>
  Claim C5, amended.  \<open>mergeTagsWithDefaults\<close> takes an array as it is and a bare string as a
  one-element array, and returns the defaults in their order followed by the extracted
  strings that are not blank after trimming and not among the defaults, each once, in
  the order of their first occurrence; comparison is exact.  The result has no repeats
  whenever the defaults have none, and defaults \<open>["a","b"]\<close> with extracted \<open>["b","c"]\<close>
  give \<open>["a","b","c"]\<close>.
\<close>

theorem mergeTagsWithDefaults_first_occurrences:
  "mergeTagsWithDefaults settings extractedTags =
      defaultTags settings @
      firstOccurrences (filter (\<lambda>s. s \<notin> set (defaultTags settings))
                          (List.map_filter acceptable (normalizeTags extractedTags)))
   \<and> (distinct (defaultTags settings) \<longrightarrow> distinct (mergeTagsWithDefaults settings extractedTags))
   \<and> normalizeTags (JString s) = [JString s]
   \<and> (defaultTags settings = [''a'', ''b''] \<longrightarrow>
        mergeTagsWithDefaults settings (JArray [JString ''b'', JString ''c'']) = [''a'', ''b'', ''c''])"
proof (intro conjI impI)
  show e: "mergeTagsWithDefaults settings extractedTags =
      defaultTags settings @
      firstOccurrences (filter (\<lambda>s. s \<notin> set (defaultTags settings))
                          (List.map_filter acceptable (normalizeTags extractedTags)))"
    by (simp add: mergeTagsWithDefaults_def pushTags_exact)
  show "distinct (mergeTagsWithDefaults settings extractedTags)" if "distinct (defaultTags settings)"
    unfolding e using that by auto
  show "normalizeTags (JString s) = [JString s]" by (simp add: normalizeTags_def)
  show "mergeTagsWithDefaults settings (JArray [JString ''b'', JString ''c'']) = [''a'', ''b'', ''c'']"
    if "defaultTags settings = [''a'', ''b'']"
    using that by (simp add: mergeTagsWithDefaults_def normalizeTags_def trim_def isWhiteSpace_def)
qed


theorem mergeTagsWithDefaults_first_occurrences_witness:
  "mergeTagsWithDefaults (DEFAULT_SETTINGS\<lparr>defaultTags := [''a'', ''b'']\<rparr>) (JArray [JString ''b'', JString ''c''])
      = [''a'', ''b'', ''c'']
   \<and> distinct (mergeTagsWithDefaults (DEFAULT_SETTINGS\<lparr>defaultTags := [''a'', ''b'']\<rparr>) (JArray [JString ''b'', JString ''c'']))"
proof -
  let ?S = "DEFAULT_SETTINGS\<lparr>defaultTags := [''a'', ''b'']\<rparr>"
  note t = mergeTagsWithDefaults_first_occurrences [of ?S "JArray [JString ''b'', JString ''c'']" "[]"]
  have ab: "defaultTags ?S = [''a'', ''b'']" and d: "distinct (defaultTags ?S)" by simp_all
  from t ab have "mergeTagsWithDefaults ?S (JArray [JString ''b'', JString ''c'']) = [''a'', ''b'', ''c'']"
    by blast
  moreover from t d have "distinct (mergeTagsWithDefaults ?S (JArray [JString ''b'', JString ''c'']))"
    by blast
  ultimately show ?thesis by blast
qed


section \<open>Properties of the batch\<close>

lemmas batch_eval = batchRun_def workerCount_def initialState_def workerLoop_def resume_def
  processNextResume_def eval_nat_numeral

lemma inFlight_append: "inFlight (st\<lparr>processing := ws @ [w]\<rparr>) = concat (map pendingFile ws) @ pendingFile w"
  by (simp add: inFlight_def)

lemma mset_concat_update:
  assumes "i < length ws"
  shows "mset (concat (map pendingFile (ws[i := w]))) + mset (pendingFile (ws ! i))
       = mset (concat (map pendingFile ws)) + mset (pendingFile w)"
proof -
  have a: "ws = take i ws @ (ws ! i) # drop (Suc i) ws"
    using assms by (simp add: id_take_nth_drop)
  have b: "ws[i := w] = take i ws @ w # drop (Suc i) ws"
    using assms by (simp add: upd_conv_take_nth_drop)
  have "mset (concat (map pendingFile ws)) =
        mset (concat (map pendingFile (take i ws))) + mset (pendingFile (ws ! i)) + mset (concat (map pendingFile (drop (Suc i) ws)))"
    by (subst a) simp
  moreover have "mset (concat (map pendingFile (ws[i := w]))) =
        mset (concat (map pendingFile (take i ws))) + mset (pendingFile w) + mset (concat (map pendingFile (drop (Suc i) ws)))"
    by (subst b) simp
  ultimately show ?thesis by simp
qed

lemma batchInv_initial: "batchInv pf files (initialState files)"
  by (simp add: batchInv_def initialState_def inFlight_def)

lemma batchInv_start:
  assumes "batchInv pf files st" and "workerLoop n st = (w, st')"
  shows "batchInv pf files (st'\<lparr>processing := processing st' @ [w]\<rparr>)"
  using assms
  by (auto simp: batchInv_def workerLoop_def inFlight_def split: list.splits)

lemma batchInv_startWorkers:
  "batchInv pf files st \<Longrightarrow> batchInv pf files (startWorkers k n st)"
proof (induction k arbitrary: st)
  case 0 then show ?case by simp
next
  case (Suc k)
  obtain w st' where w: "workerLoop n st = (w, st')" by (cases "workerLoop n st")
  from batchInv_start [OF Suc.prems w] Suc.IH w show ?case by simp
qed

lemma set_update_Resolved:
  assumes "Resolved \<in> set (ws[i := w])" and "w \<noteq> Resolved"
  shows "Resolved \<in> set ws"
  using assms set_update_subset_insert [of ws i w] by auto

lemma batchInv_resume:
  assumes "batchInv pf files st"
  shows "batchInv pf files (resume pf n i st)"
proof (cases "i < length (processing st)")
  case False
  with assms show ?thesis by (simp add: resume_def)
next
  case True
  note i = True
  show ?thesis
  proof (cases "processing st ! i")
    case (AwaitingProcessFile f)
    have m: "mset (inFlight st)
          = add_mset f (mset (concat (map pendingFile ((processing st)[i := AwaitingProcessNext]))))"
      using mset_concat_update [OF i, of AwaitingProcessNext] AwaitingProcessFile
      by (simp add: inFlight_def)
    have r: "Resolved \<in> set ((processing st)[i := AwaitingProcessNext]) \<Longrightarrow> Resolved \<in> set (processing st)"
      using set_update_Resolved [of "processing st" i AwaitingProcessNext] by simp
    have "mset (map fst (resultCalls st)) + mset (inFlight st) + mset (queue st) = mset files"
      using assms by (simp add: batchInv_def)
    then have "add_mset f (mset (map fst (resultCalls st)))
           + mset (concat (map pendingFile ((processing st)[i := AwaitingProcessNext]))) + mset (queue st) = mset files"
      unfolding m by simp
    then show ?thesis
      using assms i AwaitingProcessFile r
      by (auto simp: batchInv_def resume_def processNextResume_def inFlight_def)
  next
    case AwaitingProcessNext
    show ?thesis
    proof (cases "queue st")
      case Nil
      have "mset (concat (map pendingFile ((processing st)[i := Resolved]))) = mset (inFlight st)"
        using mset_concat_update [OF i, of Resolved] AwaitingProcessNext
        by (simp add: inFlight_def)
      then show ?thesis
        using assms i AwaitingProcessNext Nil
        by (auto simp: batchInv_def resume_def workerLoop_def inFlight_def)
    next
      case (Cons f rest)
      have m: "mset (concat (map pendingFile ((processing st)[i := AwaitingProcessFile f])))
             = mset (inFlight st) + {#f#}"
        using mset_concat_update [OF i, of "AwaitingProcessFile f"] AwaitingProcessNext
        by (simp add: inFlight_def)
      have r: "Resolved \<in> set ((processing st)[i := AwaitingProcessFile f]) \<Longrightarrow> Resolved \<in> set (processing st)"
        using set_update_Resolved [of "processing st" i "AwaitingProcessFile f"] by simp
      show ?thesis
        using assms i AwaitingProcessNext Cons m r
        by (auto simp: batchInv_def resume_def workerLoop_def inFlight_def)
    qed
  next
    case Resolved
    with assms i show ?thesis by (simp add: resume_def)
  qed
qed

lemma batchInv_run:
  "batchInv pf files st \<Longrightarrow> batchInv pf files (run pf n schedule st)"
  by (induction schedule arbitrary: st) (simp_all add: batchInv_resume)

lemma batchInv_batchRun: "batchInv pf files (batchRun pf settings files schedule)"
  by (simp add: batchRun_def batchInv_run batchInv_startWorkers batchInv_initial)

lemma sum_list_weight_update:
  assumes "i < length ws"
  shows "sum_list (map weight (ws[i := w])) + weight (ws ! i) = sum_list (map weight ws) + weight w"
proof -
  have a: "ws = take i ws @ (ws ! i) # drop (Suc i) ws"
    using assms by (simp add: id_take_nth_drop)
  have b: "ws[i := w] = take i ws @ w # drop (Suc i) ws"
    using assms by (simp add: upd_conv_take_nth_drop)
  have "sum_list (map weight ws) =
        sum_list (map weight (take i ws)) + weight (ws ! i) + sum_list (map weight (drop (Suc i) ws))"
    by (subst a) simp
  moreover have "sum_list (map weight (ws[i := w])) =
        sum_list (map weight (take i ws)) + weight w + sum_list (map weight (drop (Suc i) ws))"
    by (subst b) simp
  ultimately show ?thesis by simp
qed

lemma length_processing_resume [simp]: "length (processing (resume pf n i st)) = length (processing st)"
  by (auto simp: resume_def processNextResume_def workerLoop_def split: worker.splits list.splits)

lemma length_processing_run [simp]: "length (processing (run pf n schedule st)) = length (processing st)"
  by (induction schedule arbitrary: st) simp_all

lemma resume_other:
  "j \<noteq> i \<Longrightarrow> processing (resume pf n i st) ! j = processing st ! j"
  by (auto simp: resume_def processNextResume_def workerLoop_def split: worker.splits list.splits)

lemma potential_resume:
  assumes "i < length (processing st)" and "processing st ! i \<noteq> Resolved"
  shows "Suc (potential (resume pf n i st)) = potential st"
proof (cases "processing st ! i")
  case (AwaitingProcessFile f)
  with assms(1) sum_list_weight_update [OF assms(1), of AwaitingProcessNext]
  show ?thesis by (simp add: potential_def resume_def processNextResume_def)
next
  case AwaitingProcessNext
  show ?thesis
  proof (cases "queue st")
    case Nil
    with AwaitingProcessNext assms(1) sum_list_weight_update [OF assms(1), of Resolved]
    show ?thesis by (simp add: potential_def resume_def workerLoop_def)
  next
    case (Cons f rest)
    with AwaitingProcessNext assms(1) sum_list_weight_update [OF assms(1), of "AwaitingProcessFile f"]
    show ?thesis by (simp add: potential_def resume_def workerLoop_def)
  qed
next
  case Resolved
  with assms(2) show ?thesis by simp
qed

lemma resume_Resolved:
  "i < length (processing st) \<Longrightarrow> processing st ! i = Resolved \<Longrightarrow> resume pf n i st = st"
  by (simp add: resume_def)

lemma potential_resume_le: "potential (resume pf n i st) \<le> potential st"
proof (cases "i < length (processing st) \<and> processing st ! i \<noteq> Resolved")
  case True
  then show ?thesis using potential_resume [of i st pf n] by simp
next
  case False
  then have "resume pf n i st = st" by (auto simp: resume_def)
  then show ?thesis by simp
qed

lemma potential_run_le: "potential (run pf n schedule st) \<le> potential st"
proof (induction schedule arbitrary: st)
  case Nil show ?case by simp
next
  case (Cons i schedule)
  have "potential (run pf n schedule (resume pf n i st)) \<le> potential (resume pf n i st)"
    by (rule Cons.IH)
  also have "\<dots> \<le> potential st" by (rule potential_resume_le)
  finally show ?case by simp
qed

lemma run_other:
  "j \<notin> set schedule \<Longrightarrow> processing (run pf n schedule st) ! j = processing st ! j"
  by (induction schedule arbitrary: st) (simp_all add: resume_other)

lemma run_append: "run pf n (xs @ ys) st = run pf n ys (run pf n xs st)"
  by (induction xs arbitrary: st) simp_all

lemma allResolved_run: "allResolved st \<Longrightarrow> run pf n schedule st = st"
proof (induction schedule arbitrary: st)
  case Nil show ?case by simp
next
  case (Cons i schedule)
  have "resume pf n i st = st"
    using Cons.prems by (auto simp: resume_def allResolved_def list_all_length)
  with Cons show ?case by simp
qed

lemma round_decreases:
  assumes "\<not> allResolved st"
  shows "potential (run pf n [0..<length (processing st)] st) < potential st"
proof -
  from assms obtain j where j: "j < length (processing st)" "processing st ! j \<noteq> Resolved"
    by (auto simp: allResolved_def list_all_length)
  let ?W = "length (processing st)"
  have split: "[0..<?W] = [0..<j] @ j # [Suc j..<?W]"
    using j(1) upt_add_eq_append [of 0 j "?W - j"] upt_conv_Cons [of j ?W] by simp
  let ?st1 = "run pf n [0..<j] st"
  have "processing ?st1 ! j = processing st ! j" by (rule run_other) simp
  with j have "Suc (potential (resume pf n j ?st1)) = potential ?st1"
    by (intro potential_resume) simp_all
  moreover have "potential ?st1 \<le> potential st" by (rule potential_run_le)
  moreover have "potential (run pf n [Suc j..<?W] (resume pf n j ?st1)) \<le> potential (resume pf n j ?st1)"
    by (rule potential_run_le)
  ultimately show ?thesis by (simp add: split run_append)
qed

lemma roundRobin_Suc: "roundRobin w (Suc r) = [0..<w] @ roundRobin w r"
  by (simp add: roundRobin_def)

lemma roundRobin_resolves:
  "potential st \<le> r \<Longrightarrow> allResolved (run pf n (roundRobin (length (processing st)) r) st)"
proof (induction r arbitrary: st)
  case 0
  then have "sum_list (map weight (processing st)) = 0"
    by (simp add: potential_def)
  then have z: "\<forall>w \<in> set (processing st). weight w = 0"
    by (simp add: sum_list_eq_0_iff)
  have "w = Resolved" if "w \<in> set (processing st)" for w
    using z that by (cases w) auto
  then have "allResolved st"
    by (simp add: allResolved_def list_all_iff)
  then show ?case by (simp add: allResolved_run)
next
  case (Suc r)
  show ?case
  proof (cases "allResolved st")
    case True
    then show ?thesis by (simp add: allResolved_run)
  next
    case False
    let ?st1 = "run pf n [0..<length (processing st)] st"
    from round_decreases [OF False, of pf n] Suc.prems have "potential ?st1 \<le> r" by linarith
    from Suc.IH [OF this] show ?thesis by (simp add: roundRobin_Suc run_append)
  qed
qed

lemma workerLoop_potential:
  "workerLoop n st = (w, st') \<Longrightarrow>
     potential (st'\<lparr>processing := processing st' @ [w]\<rparr>) = potential st
   \<and> length (processing st') = length (processing st)"
  by (cases "queue st") (auto simp: workerLoop_def potential_def)

lemma startWorkers_facts:
  "length (processing (startWorkers k n st)) = length (processing st) + k
   \<and> potential (startWorkers k n st) = potential st"
proof (induction k arbitrary: st)
  case 0 show ?case by simp
next
  case (Suc k)
  obtain w st' where w: "workerLoop n st = (w, st')" by (cases "workerLoop n st")
  from workerLoop_potential [OF w] Suc.IH [of "st'\<lparr>processing := processing st' @ [w]\<rparr>"] w
  show ?case by simp
qed


text \<open>
  Claim C1, as stated, fails for a configured worker count of zero: no worker is started,
  the promise of \<open>processBatch\<close> is fulfilled at once, and the map has no entry for the one
  input file.
\<close>

theorem processBatch_no_workers_empty_map:
  "allResolved (batchRun noted noWorkers [scanA] [])
   \<and> processBatch noted noWorkers [scanA] [] \<noteq> None
   \<and> results (batchRun noted noWorkers [scanA] []) (file_path scanA) = None"
  by (simp add: processBatch_def allResolved_def batch_eval noWorkers_def DEFAULT_SETTINGS_def)

text \<open>
  Claim C1, amended.  For every list of input files and every configured worker count of
  at least 1 (or an empty list), under every order in which the workers are resumed:
  once every worker still pending has been resumed often enough (twice the number of
  files, each in turn) the promise of \<open>processBatch\<close> is fulfilled; and whenever it is
  fulfilled, the key set of the map is the set of the input paths, each entry is the
  value \<open>processFile\<close> settled with for an input file of that path, the queue is empty, no
  file is in flight, and every input file was processed exactly once.
\<close>

theorem processBatch_one_entry_per_file:
  assumes w: "1 \<le> concurrentWorkers settings \<or> files = []"
  shows "processBatch pf settings files
            (schedule @ roundRobin (workerCount settings files) (2 * length files)) \<noteq> None
       \<and> (\<forall>m. processBatch pf settings files schedule = Some m \<longrightarrow>
              dom m = file_path ` set files
            \<and> (\<forall>p r. m p = Some r \<longrightarrow> (\<exists>f \<in> set files. file_path f = p \<and> r = pf f))
            \<and> queue (batchRun pf settings files schedule) = []
            \<and> inFlight (batchRun pf settings files schedule) = []
            \<and> mset (map fst (resultCalls (batchRun pf settings files schedule))) = mset files)"
proof (intro conjI allI impI)
  let ?n = "length files" and ?W = "workerCount settings files"
  let ?st0 = "startWorkers ?W ?n (initialState files)"
  have len0: "length (processing ?st0) = ?W" and pot0: "potential ?st0 = 2 * ?n"
    using startWorkers_facts [of ?W ?n "initialState files"]
    by (simp_all add: initialState_def potential_def)
  let ?st1 = "run pf ?n schedule ?st0"
  have "potential ?st1 \<le> 2 * ?n" using potential_run_le [of pf ?n schedule ?st0] pot0 by simp
  from roundRobin_resolves [OF this, of pf ?n]
  have "allResolved (run pf ?n (roundRobin ?W (2 * ?n)) ?st1)" by (simp add: len0)
  then show "processBatch pf settings files (schedule @ roundRobin ?W (2 * ?n)) \<noteq> None"
    by (simp add: processBatch_def batchRun_def run_append)
next
  fix m assume m: "processBatch pf settings files schedule = Some m"
  let ?st = "batchRun pf settings files schedule"
  have res: "allResolved ?st" and mres: "m = results ?st"
    using m by (auto simp: processBatch_def Let_def split: if_splits)
  have inv: "batchInv pf files ?st" by (rule batchInv_batchRun)
  have len: "length (processing ?st) = workerCount settings files"
    using startWorkers_facts [of "workerCount settings files" "length files" "initialState files"]
    by (simp add: batchRun_def initialState_def)
  have allR: "\<forall>w \<in> set (processing ?st). w = Resolved"
    using res by (simp add: allResolved_def list_all_iff)
  show fl: "inFlight ?st = []"
    using allR by (auto simp: inFlight_def)
  show q: "queue ?st = []"
  proof (cases "files = []")
    case True
    with inv show ?thesis by (simp add: batchInv_def)
  next
    case False
    with w have "0 < workerCount settings files" by (simp add: workerCount_def)
    with len have "processing ?st \<noteq> []" by auto
    then obtain w0 where "w0 \<in> set (processing ?st)" by (cases "processing ?st") auto
    with allR have "Resolved \<in> set (processing ?st)" by auto
    with inv show ?thesis by (simp add: batchInv_def)
  qed
  show ms: "mset (map fst (resultCalls ?st)) = mset files"
    using inv fl q by (simp add: batchInv_def)
  have mm: "m = map_of (rev (map (\<lambda>(f, r). (file_path f, r)) (resultCalls ?st)))"
    using inv mres by (simp add: batchInv_def)
  have "dom m = file_path ` fst ` set (resultCalls ?st)"
    unfolding mm by (force simp: dom_map_of_conv_image_fst)
  also have "fst ` set (resultCalls ?st) = set files"
    using ms by (metis set_map set_mset_mset)
  finally show "dom m = file_path ` set files" .
  fix p r assume "m p = Some r"
  then have "(p, r) \<in> set (rev (map (\<lambda>(f, r). (file_path f, r)) (resultCalls ?st)))"
    unfolding mm by (rule map_of_SomeD)
  then obtain f where f: "(f, r) \<in> set (resultCalls ?st)" "p = file_path f" by auto
  then have "r = pf f" using inv by (auto simp: batchInv_def)
  moreover have "f \<in> set files"
    using f(1) ms by (metis fst_conv image_eqI set_map set_mset_mset)
  ultimately show "\<exists>f \<in> set files. file_path f = p \<and> r = pf f" using f(2) by auto
qed


theorem processBatch_one_entry_per_file_witness:
  "1 \<le> concurrentWorkers twoWorkers
   \<and> (\<exists>m. processBatch noted twoWorkers [scanA, scanB, scanC] [0, 1, 0, 1, 0, 1, 0] = Some m
          \<and> dom m = {''inbox/a.png'', ''inbox/b.png'', ''inbox/c.png''}
          \<and> m ''inbox/c.png'' = Some (noted scanC))"
proof -
  let ?files = "[scanA, scanB, scanC]" and ?schedule = "[0, 1, 0, 1, 0, 1, 0]"
  have w: "1 \<le> concurrentWorkers twoWorkers \<or> ?files = []"
    by (simp add: twoWorkers_def)
  have "allResolved (batchRun noted twoWorkers ?files ?schedule)"
    by (simp add: allResolved_def batch_eval twoWorkers_def DEFAULT_SETTINGS_def)
  then obtain m where m: "processBatch noted twoWorkers ?files ?schedule = Some m"
    by (simp add: processBatch_def)
  from processBatch_one_entry_per_file [OF w, of noted ?schedule] m
  have d: "dom m = file_path ` set ?files"
    and v: "\<forall>p r. m p = Some r \<longrightarrow> (\<exists>f \<in> set ?files. file_path f = p \<and> r = noted f)"
    by blast+
  from d have d': "dom m = {''inbox/a.png'', ''inbox/b.png'', ''inbox/c.png''}"
    by (auto simp: scanA_def scanB_def scanC_def)
  then obtain r where r: "m ''inbox/c.png'' = Some r" by blast
  with v obtain f where "f \<in> set ?files" "file_path f = ''inbox/c.png''" "r = noted f" by blast
  then have "r = noted scanC" by (auto simp: scanA_def scanB_def scanC_def)
  with r d' m w show ?thesis by (simp add: twoWorkers_def)
qed

text \<open>
  Claim C4, as stated, fails: with a configured worker count of zero and one input file no
  worker is started, which is less than 1.
\<close>

theorem workersStarted_zero:
  "workersStarted noWorkers [scanA] = 0"
  by (simp add: workersStarted_def workerCount_def initialState_def noWorkers_def DEFAULT_SETTINGS_def)

text \<open>
  Claim C4, amended.  The number of workers started is the smaller of the configured count
  and the file count, and zero when that is negative: there is an upper clamp and no
  lower one.  It is the configured count when that lies between 1 and the file count,
  it never exceeds the number of input files, it is at least 1 for a non-empty list
  when the configured count is at least 1, and it is zero when the configured count is
  zero or negative.
\<close>

theorem workersStarted_min:
  "workersStarted settings files = nat (min (concurrentWorkers settings) (int (length files)))
   \<and> (1 \<le> concurrentWorkers settings \<and> concurrentWorkers settings \<le> int (length files)
        \<longrightarrow> int (workersStarted settings files) = concurrentWorkers settings)
   \<and> workersStarted settings files \<le> length files
   \<and> (1 \<le> concurrentWorkers settings \<and> files \<noteq> [] \<longrightarrow> 1 \<le> workersStarted settings files)
   \<and> (concurrentWorkers settings \<le> 0 \<longrightarrow> workersStarted settings files = 0)"
proof -
  have "workersStarted settings files = workerCount settings files"
    using startWorkers_facts [of "workerCount settings files" "length files" "initialState files"]
    by (simp add: workersStarted_def initialState_def)
  then show ?thesis
    by (cases files) (auto simp: workerCount_def)
qed

theorem workersStarted_min_witness:
  "1 \<le> concurrentWorkers twoWorkers \<and> concurrentWorkers twoWorkers \<le> int (length [scanA, scanB, scanC])
   \<and> workersStarted twoWorkers [scanA, scanB, scanC] = 2
   \<and> concurrentWorkers noWorkers \<le> 0 \<and> workersStarted noWorkers [scanA, scanB, scanC] = 0
   \<and> workersStarted DEFAULT_SETTINGS [scanA, scanB, scanC] = 3"
  using workersStarted_min [of twoWorkers "[scanA, scanB, scanC]"]
        workersStarted_min [of noWorkers "[scanA, scanB, scanC]"]
        workersStarted_min [of DEFAULT_SETTINGS "[scanA, scanB, scanC]"]
  by (simp add: twoWorkers_def noWorkers_def DEFAULT_SETTINGS_def)


section \<open>Properties of processFile\<close>




lemma processFile_body_result:
  "processFileBody host settings f cb v = (Inr r, v') \<Longrightarrow>
   processFile host settings f cb v = (Inr r, v')"
  by (simp add: processFile_def tryCatch_def)














section \<open>Properties of parseJSONResponse\<close>




























section \<open>Properties of the template renderer\<close>

lemmas render_eval = renderTemplate_def replaceArrays_def replaceTags_def replaceCustom_def
  replaceScalars_def scalarEntries_def scalarField_def escapeContent_def replaceAll_def matchAt_def
  tokenRegex_def literal_def arrayRegex_def yamlItems_def createTemplateData_def spread_def
  showInt_def digitChar_def isWhiteSpace_def isWordChar_def isDigit_def digitValue_def
  generateFilename_def filenameData_def baseNameOf_def extensionOf_def extensionRegex_def

text \<open>
  Claim C7 (a defect of the code).  The loop over the custom variables replaces every
  \<open>{{key}}\<close> by \<open>String(value)\<close> whatever the type of the value, and it runs before the
  steps that format arrays; those steps then find no token.  So an array among the
  custom variables is rendered as a scalar, its elements joined by commas, and an
  empty one as nothing; the same happens to \<open>{{tags}}\<close> whenever \<open>tags\<close> is also among
  the custom variables, where \<open>createNote\<close> always puts it.
\<close>

theorem renderTemplate_array_as_scalar:
  "renderTemplate ''topics: {{topics}}''
      (exampleData (JArray []) [(''topics'', JArray [JString ''t1'', JString ''t2''])])
     = ''topics: t1,t2''
   \<and> renderTemplate ''topics: {{topics}}'' (exampleData (JArray []) [(''topics'', JArray [])])
     = ''topics: ''
   \<and> renderTemplate ''tags: {{tags}}''
      (exampleData (JArray [JString ''a'', JString ''b''])
         [(''tags'', JArray [JString ''a'', JString ''b''])])
     = ''tags: a,b''
   \<and> renderTemplate ''tags: {{tags}}'' (exampleData (JArray []) [(''tags'', JArray [])])
     = ''tags: ''"
  by (simp add: render_eval exampleData_def newYear_def)

text \<open>When the tags arrive in the top-level field only, the block sequence and \<open>tags: []\<close>
  are produced.\<close>

lemma renderTemplate_tags_top_level_only:
  "renderTemplate ''tags: {{tags}}'' (exampleData (JArray [JString ''a'', JString ''b'']) [])
     = ''tags: '' @ [CHR 0x0A] @ ''  - a'' @ [CHR 0x0A] @ ''  - b''
   \<and> renderTemplate ''tags: {{tags}}'' (exampleData (JArray []) []) = ''tags: []''"
  by (simp add: render_eval exampleData_def newYear_def)

lemma generateFilename_baseName: "generateFilename ''{{baseName}}.md'' ''meeting notes'' [] newYear = ''meeting notes.md''"
  by (simp add: render_eval newYear_def)





end
